theory Spec2Isabelle
  imports Complex_Main
begin

section \<open>Python values, exceptions and the built-ins the agent relies on\<close>

text \<open>
  The agent of \<^verbatim>\<open>flight_agent/agent.py\<close> handles JSON-like Python values: the
  arguments of a function call requested by the model, the dictionaries returned by the
  flight-search tools and the payload of a function-response part. A dictionary is an
  association list with string keys, looked up from the front. Strings are byte strings
  (UTF-8), so that the arrow of the route line is three characters long.
\<close>

datatype pyval =
    PNone
  | PBool bool
  | PInt int
  | PFloat real
  | PStr string
  | PList "pyval list"
  | PDict "(string \<times> pyval) list"

type_synonym py_dict = "(string \<times> pyval) list"

text \<open>
  The exceptions are those of class \<^verbatim>\<open>Exception\<close>, which the handler of line 134
  catches. An exception carries what \<^verbatim>\<open>str(e)\<close> needs: the missing key of a
  \<^verbatim>\<open>KeyError\<close>, the message of the others.
\<close>

datatype exn =
    KeyError string
  | TypeError string
  | Exception string

text \<open>\<^verbatim>\<open>str(e)\<close>: a \<^verbatim>\<open>KeyError\<close> prints the quoted key.\<close>

definition str_exn :: "exn \<Rightarrow> string" where
  "str_exn e = (case e of
       KeyError k \<Rightarrow> [CHR 39] @ k @ [CHR 39]
     | TypeError m \<Rightarrow> m
     | Exception m \<Rightarrow> m)"

text \<open>Truthiness, as tested by \<^verbatim>\<open>if x:\<close>.\<close>

fun py_truthy :: "pyval \<Rightarrow> bool" where
  "py_truthy PNone = False"
| "py_truthy (PBool b) = b"
| "py_truthy (PInt i) = (i \<noteq> 0)"
| "py_truthy (PFloat r) = (r \<noteq> 0)"
| "py_truthy (PStr s) = (s \<noteq> [])"
| "py_truthy (PList xs) = (xs \<noteq> [])"
| "py_truthy (PDict d) = (d \<noteq> [])"

text \<open>\<^verbatim>\<open>d.get(k)\<close>: the value, or \<^verbatim>\<open>None\<close> when the key is absent.\<close>

definition dict_get :: "py_dict \<Rightarrow> string \<Rightarrow> pyval" where
  "dict_get d k = (case map_of d k of None \<Rightarrow> PNone | Some v \<Rightarrow> v)"

fun py_type_name :: "pyval \<Rightarrow> string" where
  "py_type_name PNone = ''NoneType''"
| "py_type_name (PBool b) = ''bool''"
| "py_type_name (PInt i) = ''int''"
| "py_type_name (PFloat r) = ''float''"
| "py_type_name (PStr s) = ''str''"
| "py_type_name (PList xs) = ''list''"
| "py_type_name (PDict d) = ''dict''"

text \<open>
  \<^verbatim>\<open>f[k]\<close> with a string key \<^verbatim>\<open>k\<close>: a dictionary raises
  \<^verbatim>\<open>KeyError\<close> on a missing key, every other value raises
  \<^verbatim>\<open>TypeError\<close> (messages in the wording of CPython 3.11).
\<close>

definition py_getitem :: "pyval \<Rightarrow> string \<Rightarrow> exn + pyval" where
  "py_getitem f k = (case f of
       PDict d \<Rightarrow> (case map_of d k of None \<Rightarrow> Inl (KeyError k) | Some v \<Rightarrow> Inr v)
     | PStr s \<Rightarrow> Inl (TypeError (''string indices must be integers, not '' @ [CHR 39] @ ''str'' @ [CHR 39]))
     | PList xs \<Rightarrow> Inl (TypeError ''list indices must be integers or slices, not str'')
     | v \<Rightarrow> Inl (TypeError ([CHR 39] @ py_type_name v @ [CHR 39] @ '' object is not subscriptable'')))"

text \<open>
  The elements a \<^verbatim>\<open>for\<close> loop visits: the items of a list, the characters of a
  string, the keys of a dictionary; anything else is not iterable.
\<close>

definition py_iter :: "pyval \<Rightarrow> exn + pyval list" where
  "py_iter v = (case v of
       PList xs \<Rightarrow> Inr xs
     | PStr s \<Rightarrow> Inr (map (\<lambda>c. PStr [c]) s)
     | PDict d \<Rightarrow> Inr (map (\<lambda>kv. PStr (fst kv)) d)
     | w \<Rightarrow> Inl (TypeError ([CHR 39] @ py_type_name w @ [CHR 39] @ '' object is not iterable'')))"

text \<open>Decimal rendering of the integers.\<close>

fun str_nat :: "nat \<Rightarrow> string" where
  "str_nat n = (if n < 10 then [''0123456789'' ! n]
                else str_nat (n div 10) @ [''0123456789'' ! (n mod 10)])"

declare str_nat.simps [simp del]

definition str_int :: "int \<Rightarrow> string" where
  "str_int i = (if i < 0 then ''-'' @ str_nat (nat (- i)) else str_nat (nat i))"

text \<open>
  What an f-string writes for \<^verbatim>\<open>{v}\<close>. The scalars are rendered here; the
  rendering of floats and of containers belongs to the interpreter and is the parameter
  \<open>repr\<close>.
\<close>

fun py_str :: "(pyval \<Rightarrow> string) \<Rightarrow> pyval \<Rightarrow> string" where
  "py_str repr PNone = ''None''"
| "py_str repr (PBool b) = (if b then ''True'' else ''False'')"
| "py_str repr (PInt i) = str_int i"
| "py_str repr (PStr s) = s"
| "py_str repr (PFloat r) = repr (PFloat r)"
| "py_str repr (PList xs) = repr (PList xs)"
| "py_str repr (PDict d) = repr (PDict d)"

text \<open>\<^verbatim>\<open>sep.join(xs)\<close>.\<close>

fun str_join :: "string \<Rightarrow> string list \<Rightarrow> string" where
  "str_join sep [] = []"
| "str_join sep [x] = x"
| "str_join sep (x # y # ys) = x @ sep @ str_join sep (y # ys)"

text \<open>Sequencing of a computation that may raise.\<close>

definition raise_or :: "exn + 'a \<Rightarrow> ('a \<Rightarrow> exn + 'b) \<Rightarrow> exn + 'b" where
  "raise_or r k = (case r of Inl e \<Rightarrow> Inl e | Inr v \<Rightarrow> k v)"

section \<open>Responses of the model\<close>

text \<open>
  A part of a response is probed by attribute (\<^verbatim>\<open>getattr\<close>,
  \<^verbatim>\<open>hasattr\<close>): each of the three attributes the agent reads is present or not.
\<close>

record function_call =
  fc_name :: string
  fc_args :: py_dict

text \<open>
  The \<^verbatim>\<open>response\<close> attribute of a function response. In a response that the SDK
  hands to the agent it is a proto-plus \<^verbatim>\<open>MapComposite\<close>: a mapping with the
  entries of the payload (its lists are \<^verbatim>\<open>RepeatedComposite\<close>, its numbers floats)
  that is not an instance of \<^verbatim>\<open>dict\<close>. \<open>Plain\<close> is any other object, a Python
  dictionary among them.
\<close>

datatype payload =
    Plain pyval
  | MapComposite py_dict

record function_response =
  fr_name :: string
  fr_response :: payload

record part =
  p_text :: "string option"
  p_function_call :: "function_call option"
  p_function_response :: "function_response option"

record content =
  parts :: "part list"

record candidate =
  content :: content

record response =
  candidates :: "candidate list"

section \<open>Extracting the final text (agent.py, lines 105 to 133)\<close>

definition arrow :: string where
  "arrow = [CHR 0xE2, CHR 0x86, CHR 0x92]"

text \<open>The line of one flight; the keys are read in the order of the f-string.\<close>

definition format_flight :: "(pyval \<Rightarrow> string) \<Rightarrow> nat \<Rightarrow> pyval \<Rightarrow> exn + string" where
  "format_flight repr idx f =
     raise_or (py_getitem f ''airline'') (\<lambda>airline.
     raise_or (py_getitem f ''origin'') (\<lambda>origin.
     raise_or (py_getitem f ''destination'') (\<lambda>destination.
     raise_or (py_getitem f ''departure_time'') (\<lambda>departure_time.
     raise_or (py_getitem f ''arrival_time'') (\<lambda>arrival_time.
     raise_or (py_getitem f ''stops'') (\<lambda>stops.
     raise_or (py_getitem f ''price_usd'') (\<lambda>price_usd.
     raise_or (py_getitem f ''currency'') (\<lambda>currency.
     raise_or (py_getitem f ''notes'') (\<lambda>notes.
       Inr (str_nat idx @ ''. Airline: '' @ py_str repr airline
            @ ''\<newline>   Route: '' @ py_str repr origin @ '' '' @ arrow @ '' ''
            @ py_str repr destination
            @ ''\<newline>   Departure: '' @ py_str repr departure_time
            @ ''\<newline>   Arrival: '' @ py_str repr arrival_time
            @ ''\<newline>   Stops: '' @ py_str repr stops
            @ ''\<newline>   Price: $'' @ py_str repr price_usd @ '' '' @ py_str repr currency
            @ ''\<newline>   Flight Number: '' @ py_str repr notes))))))))))"

text \<open>The loop \<^verbatim>\<open>for idx, f in enumerate(flights, 1)\<close> over the items.\<close>

fun append_flights ::
  "(pyval \<Rightarrow> string) \<Rightarrow> nat \<Rightarrow> pyval list \<Rightarrow> string list \<Rightarrow> exn + string list" where
  "append_flights repr idx [] text_parts = Inr text_parts"
| "append_flights repr idx (f # fs) text_parts =
     (case format_flight repr idx f of
        Inl e \<Rightarrow> Inl e
      | Inr line \<Rightarrow> append_flights repr (Suc idx) fs (text_parts @ [line]))"

text \<open>The body run for a part whose function response is a dictionary (lines 112 to 126).\<close>

definition render_function_response ::
  "(pyval \<Rightarrow> string) \<Rightarrow> py_dict \<Rightarrow> string list \<Rightarrow> exn + string list" where
  "render_function_response repr d text_parts =
     (let flights = dict_get d ''flights'';
          summary = dict_get d ''summary'';
          error = dict_get d ''error''
      in if py_truthy error then
           Inr (text_parts @ [''Sorry, there was a problem: '' @ py_str repr error])
         else if py_truthy flights then
           (case py_iter flights of
              Inl e \<Rightarrow> Inl e
            | Inr items \<Rightarrow>
                (case append_flights repr 1 items
                        (text_parts @ [''\<newline>Here are the best flight options I found for you:'']) of
                   Inl e \<Rightarrow> Inl e
                 | Inr text_parts' \<Rightarrow>
                     Inr (if py_truthy summary
                          then text_parts' @ [''\<newline>Summary: '' @ py_str repr summary]
                          else text_parts')))
         else if py_truthy summary then
           Inr (text_parts @ [py_str repr summary])
         else Inr text_parts)"

text \<open>
  One pass of the loop over the parts (lines 108 to 126). The test
  \<^verbatim>\<open>isinstance(part.function_response.response, dict)\<close> of line 111 holds of a
  Python dictionary only, not of a \<^verbatim>\<open>MapComposite\<close>.
\<close>

definition visit_part ::
  "(pyval \<Rightarrow> string) \<Rightarrow> part \<Rightarrow> string list \<Rightarrow> exn + string list" where
  "visit_part repr p text_parts =
     (let text_parts1 = (case p_text p of
                           Some t \<Rightarrow> if t \<noteq> [] then text_parts @ [t] else text_parts
                         | None \<Rightarrow> text_parts)
      in case p_function_response p of
           None \<Rightarrow> Inr text_parts1
         | Some fr \<Rightarrow>
             (case fr_response fr of
                Plain (PDict d) \<Rightarrow> render_function_response repr d text_parts1
              | _ \<Rightarrow> Inr text_parts1))"

fun visit_parts ::
  "(pyval \<Rightarrow> string) \<Rightarrow> part list \<Rightarrow> string list \<Rightarrow> exn + string list" where
  "visit_parts repr [] text_parts = Inr text_parts"
| "visit_parts repr (p # ps) text_parts =
     (case visit_part repr p text_parts of
        Inl e \<Rightarrow> Inl e
      | Inr text_parts' \<Rightarrow> visit_parts repr ps text_parts')"

text \<open>
  What \<^verbatim>\<open>process_query\<close> hands back: a string, or \<^verbatim>\<open>None\<close> when the function
  ends without reaching a \<^verbatim>\<open>return\<close>.
\<close>

datatype pyresult = ReturnsStr string | ReturnsNone

definition fallback_text :: string where
  "fallback_text = ''Sorry, I couldn't generate a response for that query after processing.''"

text \<open>
  Lines 106 to 133: the \<^verbatim>\<open>if\<close> of line 106 has no \<^verbatim>\<open>else\<close>, so a response
  without candidates or without parts falls off the end of the function. The calls of
  the logger, here at lines 129 and 132 and everywhere else, are left out.
\<close>

definition extract_final_text :: "(pyval \<Rightarrow> string) \<Rightarrow> response \<Rightarrow> exn + pyresult" where
  "extract_final_text repr resp =
     (case candidates resp of
        [] \<Rightarrow> Inr ReturnsNone
      | c # cs \<Rightarrow>
          if parts (content c) = [] then Inr ReturnsNone
          else (case visit_parts repr (parts (content c)) [] of
                  Inl e \<Rightarrow> Inl e
                | Inr text_parts \<Rightarrow>
                    if text_parts \<noteq> []
                    then Inr (ReturnsStr (str_join ''\<newline>\<newline>'' text_parts))
                    else Inr (ReturnsStr fallback_text)))"

section \<open>The conversation with the model and the tools (agent.py, lines 49 to 136)\<close>

text \<open>
  The two tool declarations of \<^verbatim>\<open>search_flights_tool.py\<close> that a send can offer,
  and the function names they declare (lines 148 and 245).
\<close>

datatype vertex_tool = SEARCH_FLIGHTS_VERTEX_TOOL | SEARCH_GOOGLE_FLIGHTS_VERTEX_TOOL

fun declared_name :: "vertex_tool \<Rightarrow> string" where
  "declared_name SEARCH_FLIGHTS_VERTEX_TOOL = ''search_flights''"
| "declared_name SEARCH_GOOGLE_FLIGHTS_VERTEX_TOOL = ''search_google_flights''"

text \<open>
  The \<^verbatim>\<open>tools\<close> argument of a send is a list of declarations, or is left out
  (\<open>None\<close>); the model itself is built without tools (lines 37 to 40), so a send without
  the argument offers nothing.
\<close>

definition offered_names :: "vertex_tool list option \<Rightarrow> string list" where
  "offered_names tools = (case tools of None \<Rightarrow> [] | Some ts \<Rightarrow> map declared_name ts)"

text \<open>
  What the agent sends: the user's query, or
  \<^verbatim>\<open>Part.from_function_response(name=..., response=...)\<close>.
\<close>

datatype message =
    UserQuery string
  | FunctionResponsePart string py_dict

text \<open>
  Everything outside the agent is the environment, over a state \<open>'s\<close> of the outside
  world: the chat session (\<^verbatim>\<open>send_message_async\<close>, which answers or raises), the two
  functions registered in \<^verbatim>\<open>AVAILABLE_FLIGHT_TOOLS\<close>, called with keyword arguments
  (each returns a dictionary or raises), and the interpreter's \<open>repr\<close>.
\<close>

record 's env =
  send_message_async :: "'s \<Rightarrow> message \<Rightarrow> vertex_tool list option \<Rightarrow> (exn + response) \<times> 's"
  tool_search_flights :: "'s \<Rightarrow> py_dict \<Rightarrow> (exn + py_dict) \<times> 's"
  tool_search_google_flights :: "'s \<Rightarrow> py_dict \<Rightarrow> (exn + py_dict) \<times> 's"
  builtin_repr :: "pyval \<Rightarrow> string"

text \<open>The registry (search_flights_tool.py, lines 308 to 312).\<close>

definition AVAILABLE_FLIGHT_TOOLS ::
  "'s env \<Rightarrow> (string \<times> ('s \<Rightarrow> py_dict \<Rightarrow> (exn + py_dict) \<times> 's)) list" where
  "AVAILABLE_FLIGHT_TOOLS env =
     [(''search_flights'', tool_search_flights env),
      (''search_google_flights'', tool_search_google_flights env)]"

text \<open>
  The run also records what the agent did, in order: every send with the tools it
  offered, every call of a registered function.
\<close>

datatype event =
    Sent message "vertex_tool list option"
  | Called string py_dict

text \<open>
  The function call the \<^verbatim>\<open>while\<close> condition looks for (lines 60 to 65): the one of
  the first part of the first candidate.
\<close>

definition requested_call :: "response \<Rightarrow> function_call option" where
  "requested_call resp =
     (case candidates resp of
        [] \<Rightarrow> None
      | c # cs \<Rightarrow> (case parts (content c) of
                     [] \<Rightarrow> None
                   | p # ps \<Rightarrow> p_function_call p))"

text \<open>The tools offered with the result of a registered function (lines 81 to 92).\<close>

definition tools_after :: "string \<Rightarrow> vertex_tool list option" where
  "tools_after function_name =
     (if function_name = ''search_flights'' then Some [SEARCH_GOOGLE_FLIGHTS_VERTEX_TOOL]
      else if function_name = ''search_google_flights'' then None
      else None)"

text \<open>
  The \<^verbatim>\<open>while\<close> loop of lines 60 to 103. It ends with the response that is handed to
  the extraction, or with the exception that leaves the loop; a model that asks for a
  function on every turn keeps it running forever, which is the value \<open>None\<close>.
\<close>

partial_function (option) dispatch_loop ::
  "'s env \<Rightarrow> 's \<Rightarrow> event list \<Rightarrow> response \<Rightarrow> ((exn + response) \<times> 's \<times> event list) option" where
  "dispatch_loop env st tr resp =
     (case requested_call resp of
        None \<Rightarrow> Some (Inr resp, st, tr)
      | Some fc \<Rightarrow>
          (case map_of (AVAILABLE_FLIGHT_TOOLS env) (fc_name fc) of
             Some function_to_call \<Rightarrow>
               (case function_to_call st (fc_args fc) of
                  (Inl e, st1) \<Rightarrow> Some (Inl e, st1, tr @ [Called (fc_name fc) (fc_args fc)])
                | (Inr tool_response_data, st1) \<Rightarrow>
                    (case send_message_async env st1
                            (FunctionResponsePart (fc_name fc) tool_response_data)
                            (tools_after (fc_name fc)) of
                       (Inl e, st2) \<Rightarrow>
                         Some (Inl e, st2,
                               tr @ [Called (fc_name fc) (fc_args fc),
                                     Sent (FunctionResponsePart (fc_name fc) tool_response_data)
                                          (tools_after (fc_name fc))])
                     | (Inr resp', st2) \<Rightarrow>
                         dispatch_loop env st2
                           (tr @ [Called (fc_name fc) (fc_args fc),
                                  Sent (FunctionResponsePart (fc_name fc) tool_response_data)
                                       (tools_after (fc_name fc))])
                           resp'))
           | None \<Rightarrow>
               (case send_message_async env st
                       (FunctionResponsePart (fc_name fc)
                          [(''error'', PStr (''Unknown function '' @ fc_name fc))])
                       None of
                  (Inl e, st1) \<Rightarrow>
                    Some (Inl e, st1,
                          tr @ [Sent (FunctionResponsePart (fc_name fc)
                                        [(''error'', PStr (''Unknown function '' @ fc_name fc))])
                                     None])
                | (Inr resp', st1) \<Rightarrow>
                    Some (Inr resp', st1,
                          tr @ [Sent (FunctionResponsePart (fc_name fc)
                                        [(''error'', PStr (''Unknown function '' @ fc_name fc))])
                                     None]))))"

text \<open>The handler of lines 134 to 136.\<close>

definition error_text :: "exn \<Rightarrow> string" where
  "error_text e = ''An error occurred while processing your request: '' @ str_exn e"

text \<open>
  What follows the loop (lines 105 to 136): the final response is turned into text, and
  an exception, raised in the loop or by the extraction, is reported as a string.
  Neither the outside world nor the record of the run is touched.
\<close>

definition finish ::
  "'s env \<Rightarrow> (exn + response) \<times> 's \<times> event list \<Rightarrow> pyresult \<times> 's \<times> event list" where
  "finish env out =
     (case out of
        (Inl e, st, tr) \<Rightarrow> (ReturnsStr (error_text e), st, tr)
      | (Inr final, st, tr) \<Rightarrow>
          (case extract_final_text (builtin_repr env) final of
             Inl e \<Rightarrow> (ReturnsStr (error_text e), st, tr)
           | Inr r \<Rightarrow> (r, st, tr)))"

text \<open>
  \<^verbatim>\<open>process_query\<close>: the first send offers \<^verbatim>\<open>search_flights\<close> alone, then the
  loop runs and its outcome is finished as above. The result is \<open>None\<close> when the loop
  never ends. The chat session that lines 50 and 51 create on first use is part of the
  state of the outside world.
\<close>

definition process_query ::
  "'s env \<Rightarrow> 's \<Rightarrow> string \<Rightarrow> (pyresult \<times> 's \<times> event list) option" where
  "process_query env st user_query =
     (case send_message_async env st (UserQuery user_query) (Some [SEARCH_FLIGHTS_VERTEX_TOOL]) of
        (Inl e, st1) \<Rightarrow>
          Some (finish env
                  (Inl e, st1, [Sent (UserQuery user_query) (Some [SEARCH_FLIGHTS_VERTEX_TOOL])]))
      | (Inr resp, st1) \<Rightarrow>
          map_option (finish env)
            (dispatch_loop env st1
               [Sent (UserQuery user_query) (Some [SEARCH_FLIGHTS_VERTEX_TOOL])] resp))"

section \<open>The first tool: lookup of the airports, then the search (search_flights_tool.py)\<close>

text \<open>
  \<^verbatim>\<open>lookup_sky_scrapper_location\<close> returns \<^verbatim>\<open>{"error": ...}\<close> (lines 85 and 123)
  or \<^verbatim>\<open>{"results": [...]}\<close> (line 118), each result a dictionary with the five keys
  of lines 110 to 116, whose values are whatever the service sent.
\<close>

record location =
  loc_name :: pyval
  iata :: pyval
  skyId :: pyval
  entityId :: pyval
  loc_type :: pyval

datatype lookup_result =
    LookupError string
  | LookupResults "location list"

text \<open>The arguments \<^verbatim>\<open>unified_search_flights\<close> passes on unchanged.\<close>

record flight_query =
  departure_date :: string
  return_date :: "string option"
  cabinClass :: string
  adults :: int
  sortBy :: string
  currency :: string
  market :: string
  countryCode :: string
  preferences :: "string list option"

record sky_request =
  originSkyId :: pyval
  destinationSkyId :: pyval
  originEntityId :: pyval
  destinationEntityId :: pyval
  query :: flight_query

text \<open>
  The two functions that talk to the service are the environment here. Both catch the
  exceptions of their requests: the lookup (lines 76 to 123) always returns one of its
  two shapes, the flight search (lines 13 to 73) always returns a dictionary.
\<close>

record 's sky_env =
  lookup_sky_scrapper_location :: "'s \<Rightarrow> string \<Rightarrow> lookup_result \<times> 's"
  search_flights_sky_scrapper :: "'s \<Rightarrow> sky_request \<Rightarrow> py_dict \<times> 's"

text \<open>
  A lookup has failed when the test of lines 132 and 134 holds:
  \<^verbatim>\<open>"error" in info or not info.get("results")\<close>.
\<close>

definition lookup_failed :: "lookup_result \<Rightarrow> bool" where
  "lookup_failed info = (case info of LookupError m \<Rightarrow> True | LookupResults rs \<Rightarrow> rs = [])"

datatype sky_ids =
    IdsError string
  | SkyIds pyval pyval pyval pyval

text \<open>
  \<^verbatim>\<open>get_sky_ids_for_airports\<close> (lines 126 to 144): both lookups are made first, the
  origin is tested before the destination. \<open>SkyIds\<close> holds originSkyId,
  originEntityId, destinationSkyId and destinationEntityId.
\<close>

definition get_sky_ids_for_airports ::
  "'s sky_env \<Rightarrow> 's \<Rightarrow> string \<Rightarrow> string \<Rightarrow> sky_ids \<times> 's" where
  "get_sky_ids_for_airports env st origin destination =
     (case lookup_sky_scrapper_location env st origin of
        (origin_info, st1) \<Rightarrow>
          (case lookup_sky_scrapper_location env st1 destination of
             (destination_info, st2) \<Rightarrow>
               (case origin_info of
                  LookupError m \<Rightarrow>
                    (IdsError (''Could not find Sky Scrapper location for origin: '' @ origin), st2)
                | LookupResults [] \<Rightarrow>
                    (IdsError (''Could not find Sky Scrapper location for origin: '' @ origin), st2)
                | LookupResults (o1 # os) \<Rightarrow>
                    (case destination_info of
                       LookupError m \<Rightarrow>
                         (IdsError (''Could not find Sky Scrapper location for destination: ''
                                    @ destination), st2)
                     | LookupResults [] \<Rightarrow>
                         (IdsError (''Could not find Sky Scrapper location for destination: ''
                                    @ destination), st2)
                     | LookupResults (d1 # ds) \<Rightarrow>
                         (SkyIds (skyId o1) (entityId o1) (skyId d1) (entityId d1), st2)))))"

text \<open>\<^verbatim>\<open>unified_search_flights\<close> (lines 273 to 306).\<close>

definition unified_search_flights ::
  "'s sky_env \<Rightarrow> 's \<Rightarrow> string \<Rightarrow> string \<Rightarrow> flight_query \<Rightarrow> py_dict \<times> 's" where
  "unified_search_flights env st origin destination q =
     (case get_sky_ids_for_airports env st origin destination of
        (IdsError msg, st2) \<Rightarrow> ([(''error'', PStr msg)], st2)
      | (SkyIds o_sky o_entity d_sky d_entity, st2) \<Rightarrow>
          search_flights_sky_scrapper env st2
            \<lparr> originSkyId = o_sky, destinationSkyId = d_sky,
              originEntityId = o_entity, destinationEntityId = d_entity, query = q \<rparr>)"

section \<open>A scripted environment\<close>

text \<open>
  For concrete runs: the chat session answers from a script, one reply per send (and
  raises once the script is used up), the two tools are given as functions of their
  arguments, and the state is the rest of the script.
\<close>

type_synonym script = "(exn + response) list"

definition scripted_send ::
  "script \<Rightarrow> message \<Rightarrow> vertex_tool list option \<Rightarrow> (exn + response) \<times> script" where
  "scripted_send st msg tools =
     (case st of
        [] \<Rightarrow> (Inl (Exception ''no reply left in the script''), [])
      | r # rs \<Rightarrow> (r, rs))"

definition plain_repr :: "pyval \<Rightarrow> string" where
  "plain_repr v = ''<'' @ py_type_name v @ ''>''"

definition scripted_env ::
  "(py_dict \<Rightarrow> exn + py_dict) \<Rightarrow> (py_dict \<Rightarrow> exn + py_dict) \<Rightarrow> script env" where
  "scripted_env first_tool second_tool =
     \<lparr> send_message_async = scripted_send,
       tool_search_flights = (\<lambda>st args. (first_tool args, st)),
       tool_search_google_flights = (\<lambda>st args. (second_tool args, st)),
       builtin_repr = plain_repr \<rparr>"

text \<open>Responses with one candidate, and the three kinds of part.\<close>

definition response_of :: "part list \<Rightarrow> response" where
  "response_of ps = \<lparr> candidates = [\<lparr> content = \<lparr> parts = ps \<rparr> \<rparr>] \<rparr>"

definition text_part :: "string \<Rightarrow> part" where
  "text_part t = \<lparr> p_text = Some t, p_function_call = None, p_function_response = None \<rparr>"

definition call_part :: "string \<Rightarrow> py_dict \<Rightarrow> part" where
  "call_part n args =
     \<lparr> p_text = None, p_function_call = Some \<lparr> fc_name = n, fc_args = args \<rparr>,
       p_function_response = None \<rparr>"

definition result_part :: "string \<Rightarrow> payload \<Rightarrow> part" where
  "result_part n payload =
     \<lparr> p_text = None, p_function_call = None,
       p_function_response = Some \<lparr> fr_name = n, fr_response = payload \<rparr> \<rparr>"

section \<open>Predicates used by the properties\<close>

text \<open>
  The record of a run respects the order of the offers when every call of a registered
  function is followed at once by the send of its result, and that send offers exactly
  \<^verbatim>\<open>search_google_flights\<close> after \<^verbatim>\<open>search_flights\<close> and nothing after any
  other function. A call may only be the last event when the function raised.
\<close>

fun offers_ok :: "event list \<Rightarrow> bool" where
  "offers_ok [] = True"
| "offers_ok (Called n args # Sent (FunctionResponsePart m d) tools # tr) =
     (m = n \<and>
      offered_names tools = (if n = ''search_flights'' then [''search_google_flights'']
                             else []) \<and>
      offers_ok tr)"
| "offers_ok (Called n args # tr) = (tr = [])"
| "offers_ok (Sent m tools # tr) = offers_ok tr"

definition is_nonempty_str :: "pyresult \<Rightarrow> bool" where
  "is_nonempty_str r = (case r of ReturnsStr s \<Rightarrow> s \<noteq> [] | ReturnsNone \<Rightarrow> False)"

text \<open>
  A flight record as the tools build it (search_flights_tool.py, lines 57 to 68 and 225
  to 236): a dictionary holding every key the listing reads.
\<close>

definition flight_keys :: "string list" where
  "flight_keys = [''airline'', ''origin'', ''destination'', ''departure_time'',
                  ''arrival_time'', ''stops'', ''price_usd'', ''currency'', ''notes'']"

definition is_flight_record :: "pyval \<Rightarrow> bool" where
  "is_flight_record f =
     (case f of PDict d \<Rightarrow> list_all (\<lambda>k. map_of d k \<noteq> None) flight_keys | _ \<Rightarrow> False)"

definition field_of :: "pyval \<Rightarrow> string \<Rightarrow> pyval" where
  "field_of f k = (case f of PDict d \<Rightarrow> dict_get d k | _ \<Rightarrow> PNone)"

text \<open>
  The listing as the specification describes it: per record its number, the airline, the
  route as origin, arrow, destination, the two times, the stops, the price with its
  currency and the notes; the records are numbered from one, in their order.
\<close>

definition spec_flight_line :: "(pyval \<Rightarrow> string) \<Rightarrow> nat \<Rightarrow> pyval \<Rightarrow> string" where
  "spec_flight_line repr idx f =
     str_nat idx @ ''. Airline: '' @ py_str repr (field_of f ''airline'')
     @ ''\<newline>   Route: '' @ py_str repr (field_of f ''origin'')
     @ '' '' @ arrow @ '' '' @ py_str repr (field_of f ''destination'')
     @ ''\<newline>   Departure: '' @ py_str repr (field_of f ''departure_time'')
     @ ''\<newline>   Arrival: '' @ py_str repr (field_of f ''arrival_time'')
     @ ''\<newline>   Stops: '' @ py_str repr (field_of f ''stops'')
     @ ''\<newline>   Price: $'' @ py_str repr (field_of f ''price_usd'')
     @ '' '' @ py_str repr (field_of f ''currency'')
     @ ''\<newline>   Flight Number: '' @ py_str repr (field_of f ''notes'')"

fun spec_flight_lines :: "(pyval \<Rightarrow> string) \<Rightarrow> nat \<Rightarrow> pyval list \<Rightarrow> string list" where
  "spec_flight_lines repr idx [] = []"
| "spec_flight_lines repr idx (f # fs) =
     spec_flight_line repr idx f # spec_flight_lines repr (Suc idx) fs"

definition spec_listing :: "(pyval \<Rightarrow> string) \<Rightarrow> py_dict \<Rightarrow> pyval list \<Rightarrow> string list" where
  "spec_listing repr d fs =
     [''\<newline>Here are the best flight options I found for you:'']
     @ spec_flight_lines repr 1 fs
     @ (if py_truthy (dict_get d ''summary'')
        then [''\<newline>Summary: '' @ py_str repr (dict_get d ''summary'')] else [])"

section \<open>Sample data for concrete runs\<close>

text \<open>
  A service that knows the airports of the list \<open>known\<close> and logs every request it
  receives, for concrete runs of the first tool.
\<close>

definition logging_sky_env :: "string list \<Rightarrow> string list sky_env" where
  "logging_sky_env known =
     \<lparr> lookup_sky_scrapper_location =
         (\<lambda>log q. (if q \<in> set known
                    then LookupResults [\<lparr> loc_name = PStr q, iata = PStr q, skyId = PStr q,
                                          entityId = PStr ''95673'', loc_type = PStr ''AIRPORT'' \<rparr>]
                    else LookupError (''Sky Scrapper could not find location for: '' @ q),
                    log @ [''lookup '' @ q])),
       search_flights_sky_scrapper =
         (\<lambda>log req. ([(''flights'', PList []), (''summary'', PStr ''Found 0 flights'')],
                     log @ [''search''])) \<rparr>"

text \<open>
  Arguments as the model passes them, the result of the second tool when its key is not
  configured (line 195), and a result without flights.
\<close>

definition sample_args :: py_dict where
  "sample_args = [(''origin'', PStr ''FRA''), (''destination'', PStr ''DAC''),
                  (''departure_date'', PStr ''2025-06-01'')]"

definition key_missing :: py_dict where
  "key_missing = [(''error'', PStr ''SerpApi API key not set in .env'')]"

definition no_flights :: py_dict where
  "no_flights = [(''flights'', PList []),
                 (''summary'', PStr ''Found 0 flights from FRA to DAC on 2025-06-01.'')]"

text \<open>The entries of a payload as the SDK hands it back: its numbers are floats.\<close>

definition proto_payload :: py_dict where
  "proto_payload =
     [(''flights'',
       PList [PDict [(''airline'', PStr ''Lufthansa''), (''origin'', PStr ''FRA''),
                     (''destination'', PStr ''DAC''), (''departure_time'', PStr ''10:00''),
                     (''arrival_time'', PStr ''23:30''), (''duration_hours'', PNone),
                     (''stops'', PFloat 1), (''price_usd'', PFloat 650),
                     (''currency'', PStr ''USD''), (''notes'', PStr ''LH760'')]]),
      (''summary'', PStr ''Found 1 flights from FRA to DAC on 2025-06-01.'')]"

text \<open>A flight record as both tools build it.\<close>

definition flight_record ::
  "string \<Rightarrow> string \<Rightarrow> string \<Rightarrow> string \<Rightarrow> string \<Rightarrow> int \<Rightarrow> int \<Rightarrow> string \<Rightarrow> string \<Rightarrow> pyval" where
  "flight_record airline orig dest departure arrival stops price cur notes =
     PDict [(''airline'', PStr airline), (''origin'', PStr orig),
            (''destination'', PStr dest), (''departure_time'', PStr departure),
            (''arrival_time'', PStr arrival), (''duration_hours'', PNone),
            (''stops'', PInt stops), (''price_usd'', PInt price),
            (''currency'', PStr cur), (''notes'', PStr notes)]"

section \<open>Auxiliary facts\<close>

lemmas run_defs =
  process_query_def finish_def scripted_env_def scripted_send_def response_of_def
  text_part_def call_part_def result_part_def requested_call_def AVAILABLE_FLIGHT_TOOLS_def
  tools_after_def extract_final_text_def visit_part_def

lemma registry_lookup:
  "map_of (AVAILABLE_FLIGHT_TOOLS env) n =
     (if n = ''search_flights'' then Some (tool_search_flights env)
      else if n = ''search_google_flights'' then Some (tool_search_google_flights env)
      else None)"
  by (simp add: AVAILABLE_FLIGHT_TOOLS_def)

lemma offered_after:
  "offered_names (tools_after n) =
     (if n = ''search_flights'' then [''search_google_flights''] else [])"
  by (simp add: offered_names_def tools_after_def)

subsection \<open>Every piece of text the extraction collects is non-empty\<close>

lemma str_nat_nonempty: "str_nat n \<noteq> []"
  by (subst str_nat.simps) simp

lemma py_str_nonempty:
  assumes "py_truthy v" and "\<And>w. repr w \<noteq> []"
  shows "py_str repr v \<noteq> []"
  using assms by (cases v) (auto simp: str_int_def str_nat_nonempty)

lemma error_text_nonempty: "error_text e \<noteq> []"
  by (simp add: error_text_def)

lemma format_flight_nonempty:
  "format_flight repr idx f = Inr line \<Longrightarrow> line \<noteq> []"
  by (auto simp: format_flight_def raise_or_def str_nat_nonempty split: sum.splits)

lemma append_flights_nonempty:
  "append_flights repr idx fs acc = Inr out \<Longrightarrow> [] \<notin> set acc \<Longrightarrow> [] \<notin> set out"
proof (induction fs arbitrary: idx acc)
  case Nil
  then show ?case by simp
next
  case (Cons f fs)
  from Cons.prems(1) obtain line where
    line: "format_flight repr idx f = Inr line" and
    rest: "append_flights repr (Suc idx) fs (acc @ [line]) = Inr out"
    by (auto split: sum.splits)
  from line have "line \<noteq> []" by (rule format_flight_nonempty)
  with Cons.prems(2) have "[] \<notin> set (acc @ [line])" by auto
  with rest show ?case by (rule Cons.IH)
qed

lemma render_nonempty:
  assumes "render_function_response repr d acc = Inr out" and "[] \<notin> set acc"
      and "\<And>w. repr w \<noteq> []"
  shows "[] \<notin> set out"
proof -
  have s: "\<And>v. py_truthy v \<Longrightarrow> py_str repr v \<noteq> []"
    using assms(3) by (simp add: py_str_nonempty)
  have s': "\<And>v. py_truthy v \<Longrightarrow> [] \<noteq> py_str repr v"
    using s by fastforce
  show ?thesis
    using assms(1,2) s s'
    by (auto simp: render_function_response_def Let_def
             split: if_splits sum.splits dest!: append_flights_nonempty)
qed

lemma visit_part_nonempty:
  assumes "visit_part repr p acc = Inr out" and "[] \<notin> set acc"
      and "\<And>w. repr w \<noteq> []"
  shows "[] \<notin> set out"
  using assms
  by (auto simp: visit_part_def Let_def
           split: option.splits payload.splits pyval.splits if_splits
           dest: render_nonempty)

lemma visit_parts_nonempty:
  assumes "visit_parts repr ps acc = Inr out" and "[] \<notin> set acc"
      and "\<And>w. repr w \<noteq> []"
  shows "[] \<notin> set out"
  using assms
proof (induction ps arbitrary: acc)
  case Nil
  then show ?case by simp
next
  case (Cons p ps)
  then show ?case
    by (auto split: sum.splits dest: visit_part_nonempty)
qed

lemma str_join_nonempty:
  "xs \<noteq> [] \<Longrightarrow> [] \<notin> set xs \<Longrightarrow> str_join sep xs \<noteq> []"
  by (induction sep xs rule: str_join.induct) auto

lemma finish_nonempty:
  assumes "candidates resp = c # cs" and "parts (content c) \<noteq> []"
      and "\<And>w. builtin_repr env w \<noteq> []"
  shows "is_nonempty_str (fst (finish env (Inr resp, st, tr)))"
proof (cases "visit_parts (builtin_repr env) (parts (content c)) []")
  case (Inl e)
  with assms(1,2) show ?thesis
    by (simp add: finish_def extract_final_text_def is_nonempty_str_def error_text_nonempty)
next
  case (Inr text_parts)
  have "[] \<notin> set text_parts"
    using Inr _ assms(3) by (rule visit_parts_nonempty) simp
  with Inr assms(1,2) show ?thesis
    by (simp add: finish_def extract_final_text_def is_nonempty_str_def fallback_text_def
                  str_join_nonempty)
qed

subsection \<open>The record of a run that returns\<close>

lemma loop_trace:
  assumes "dispatch_loop env st tr resp = Some out"
  shows "\<exists>suf. snd (snd out) = tr @ suf \<and> offers_ok suf"
  using assms
proof (induct env st tr resp out
       rule: dispatch_loop.raw_induct[rotated 1, consumes 1, case_names 1])
  case (1 loop env st tr resp out)
  show ?case
  proof (cases "requested_call resp")
    case None
    with 1(2) show ?thesis by auto
  next
    case (Some fc)
    show ?thesis
    proof (cases "map_of (AVAILABLE_FLIGHT_TOOLS env) (fc_name fc)")
      case None
      with Some 1(2) show ?thesis
        by (auto split: prod.splits sum.splits)
    next
      case fn: (Some f)
      obtain r1 st1 where f: "f st (fc_args fc) = (r1, st1)"
        by (cases "f st (fc_args fc)")
      show ?thesis
      proof (cases r1)
        case (Inl e)
        with Some fn f 1(2) show ?thesis by auto
      next
        case (Inr data)
        obtain r2 st2 where s:
          "send_message_async env st1 (FunctionResponsePart (fc_name fc) data)
             (tools_after (fc_name fc)) = (r2, st2)"
          by (cases "send_message_async env st1 (FunctionResponsePart (fc_name fc) data)
                       (tools_after (fc_name fc))")
        show ?thesis
        proof (cases r2)
          case (Inl e)
          with Some fn f Inr s 1(2) show ?thesis by (auto simp: offered_after)
        next
          case r2: (Inr resp')
          from Some fn f Inr s r2 1(2)
          have "loop env st2
                  (tr @ [Called (fc_name fc) (fc_args fc),
                         Sent (FunctionResponsePart (fc_name fc) data)
                              (tools_after (fc_name fc))]) resp' = Some out"
            by simp
          then have "\<exists>suf. snd (snd out) =
                  (tr @ [Called (fc_name fc) (fc_args fc),
                         Sent (FunctionResponsePart (fc_name fc) data)
                              (tools_after (fc_name fc))]) @ suf \<and> offers_ok suf"
            by (rule 1(1))
          then obtain suf where
            "snd (snd out) =
               (tr @ [Called (fc_name fc) (fc_args fc),
                      Sent (FunctionResponsePart (fc_name fc) data)
                           (tools_after (fc_name fc))]) @ suf"
            "offers_ok suf" by blast
          then show ?thesis by (auto simp: offered_after)
        qed
      qed
    qed
  qed
qed

lemma plain_repr_nonempty: "plain_repr w \<noteq> []"
  by (simp add: plain_repr_def)

subsection \<open>The extraction only appends to the text collected so far\<close>

lemma append_flights_acc:
  "append_flights repr idx fs acc =
     (case append_flights repr idx fs [] of Inl e \<Rightarrow> Inl e | Inr out \<Rightarrow> Inr (acc @ out))"
proof (induction fs arbitrary: idx acc)
  case Nil
  show ?case by simp
next
  case (Cons f fs)
  show ?case
  proof (cases "format_flight repr idx f")
    case (Inl e)
    then show ?thesis by simp
  next
    case (Inr line)
    have a: "append_flights repr (Suc idx) fs (acc @ [line]) =
               (case append_flights repr (Suc idx) fs [] of
                  Inl e \<Rightarrow> Inl e | Inr out \<Rightarrow> Inr ((acc @ [line]) @ out))"
      by (rule Cons.IH)
    have b: "append_flights repr (Suc idx) fs [line] =
               (case append_flights repr (Suc idx) fs [] of
                  Inl e \<Rightarrow> Inl e | Inr out \<Rightarrow> Inr ([line] @ out))"
      by (rule Cons.IH)
    from Inr a b show ?thesis
      by (simp split: sum.splits)
  qed
qed

lemma render_acc:
  "render_function_response repr d acc =
     (case render_function_response repr d [] of
        Inl e \<Rightarrow> Inl e | Inr out \<Rightarrow> Inr (acc @ out))"
proof -
  let ?h = "''\<newline>Here are the best flight options I found for you:''"
  have a: "\<And>items. append_flights repr (Suc 0) items (acc @ [?h]) =
               (case append_flights repr (Suc 0) items [] of
                  Inl e \<Rightarrow> Inl e | Inr out \<Rightarrow> Inr ((acc @ [?h]) @ out))"
    by (rule append_flights_acc)
  have b: "\<And>items. append_flights repr (Suc 0) items [?h] =
               (case append_flights repr (Suc 0) items [] of
                  Inl e \<Rightarrow> Inl e | Inr out \<Rightarrow> Inr ([?h] @ out))"
    by (rule append_flights_acc)
  show ?thesis
    by (simp add: render_function_response_def Let_def a b split: sum.splits)
qed

lemma visit_part_acc:
  "visit_part repr p acc =
     (case visit_part repr p [] of Inl e \<Rightarrow> Inl e | Inr out \<Rightarrow> Inr (acc @ out))"
proof -
  define own where "own = (case p_text p of Some t \<Rightarrow> if t \<noteq> [] then [t] else [] | None \<Rightarrow> [])"
  have t: "(case p_text p of Some t \<Rightarrow> if t \<noteq> [] then acc @ [t] else acc | None \<Rightarrow> acc)
             = acc @ own"
          "(case p_text p of Some t \<Rightarrow> if t \<noteq> [] then [] @ [t] else [] | None \<Rightarrow> []) = own"
    by (simp_all add: own_def split: option.splits)
  show ?thesis
  proof (cases "p_function_response p")
    case None
    then show ?thesis by (simp add: visit_part_def t)
  next
    case (Some fr)
    show ?thesis
    proof (cases "\<exists>d. fr_response fr = Plain (PDict d)")
      case False
      with Some show ?thesis
        by (simp add: visit_part_def t split: payload.splits pyval.splits)
    next
      case True
      then obtain d where d: "fr_response fr = Plain (PDict d)" by blast
      have "render_function_response repr d (acc @ own) =
              (case render_function_response repr d [] of
                 Inl e \<Rightarrow> Inl e | Inr out \<Rightarrow> Inr ((acc @ own) @ out))"
        by (rule render_acc)
      moreover have "render_function_response repr d own =
              (case render_function_response repr d [] of
                 Inl e \<Rightarrow> Inl e | Inr out \<Rightarrow> Inr (own @ out))"
        by (rule render_acc)
      ultimately show ?thesis
        using Some d by (simp add: visit_part_def t split: sum.splits)
    qed
  qed
qed

lemma visit_parts_acc:
  "visit_parts repr ps acc =
     (case visit_parts repr ps [] of Inl e \<Rightarrow> Inl e | Inr out \<Rightarrow> Inr (acc @ out))"
proof (induction ps arbitrary: acc)
  case Nil
  show ?case by simp
next
  case (Cons p ps)
  show ?case
  proof (cases "visit_part repr p []")
    case (Inl e)
    then show ?thesis by (simp add: visit_part_acc [of repr p acc])
  next
    case (Inr t)
    have a: "visit_parts repr ps (acc @ t) =
               (case visit_parts repr ps [] of Inl e \<Rightarrow> Inl e | Inr out \<Rightarrow> Inr ((acc @ t) @ out))"
      by (rule Cons.IH)
    have b: "visit_parts repr ps t =
               (case visit_parts repr ps [] of Inl e \<Rightarrow> Inl e | Inr out \<Rightarrow> Inr (t @ out))"
      by (rule Cons.IH)
    from Inr a b show ?thesis
      by (simp add: visit_part_acc [of repr p acc] split: sum.splits)
  qed
qed

lemma visit_parts_append:
  "visit_parts repr (xs @ ys) acc =
     (case visit_parts repr xs acc of Inl e \<Rightarrow> Inl e | Inr a \<Rightarrow> visit_parts repr ys a)"
  by (induction xs arbitrary: acc) (auto split: sum.splits)

subsection \<open>Rendering of a payload with well-formed records\<close>

lemma getitem_present:
  "map_of d k \<noteq> None \<Longrightarrow> py_getitem (PDict d) k = Inr (dict_get d k)"
  by (auto simp: py_getitem_def dict_get_def)

lemma format_flight_record:
  assumes "is_flight_record f"
  shows "format_flight repr idx f = Inr (spec_flight_line repr idx f)"
proof -
  from assms obtain d where d: "f = PDict d"
    by (cases f) (simp_all add: is_flight_record_def)
  with assms have k: "\<And>k. k \<in> set flight_keys \<Longrightarrow> py_getitem f k = Inr (field_of f k)"
    by (simp add: is_flight_record_def list_all_iff getitem_present field_of_def)
  have "py_getitem f ''airline'' = Inr (field_of f ''airline'')"
       "py_getitem f ''origin'' = Inr (field_of f ''origin'')"
       "py_getitem f ''destination'' = Inr (field_of f ''destination'')"
       "py_getitem f ''departure_time'' = Inr (field_of f ''departure_time'')"
       "py_getitem f ''arrival_time'' = Inr (field_of f ''arrival_time'')"
       "py_getitem f ''stops'' = Inr (field_of f ''stops'')"
       "py_getitem f ''price_usd'' = Inr (field_of f ''price_usd'')"
       "py_getitem f ''currency'' = Inr (field_of f ''currency'')"
       "py_getitem f ''notes'' = Inr (field_of f ''notes'')"
    by (simp_all add: k flight_keys_def)
  then show ?thesis
    by (simp add: format_flight_def raise_or_def spec_flight_line_def)
qed

lemma append_flights_records:
  "list_all is_flight_record fs \<Longrightarrow>
     append_flights repr idx fs acc = Inr (acc @ spec_flight_lines repr idx fs)"
  by (induction fs arbitrary: idx acc) (simp_all add: format_flight_record)

lemma render_flights:
  assumes "\<not> py_truthy (dict_get d ''error'')" and "dict_get d ''flights'' = PList fs"
      and "fs \<noteq> []" and "list_all is_flight_record fs"
  shows "render_function_response repr d acc = Inr (acc @ spec_listing repr d fs)"
  using assms
  by (simp add: render_function_response_def Let_def py_iter_def append_flights_records
                spec_listing_def)

lemma render_error:
  assumes "py_truthy (dict_get d ''error'')"
  shows "render_function_response repr d acc
           = Inr (acc @ [''Sorry, there was a problem: '' @ py_str repr (dict_get d ''error'')])"
  using assms by (simp add: render_function_response_def Let_def)

lemma visit_result_part:
  assumes "p_text p = None" and "p_function_response p = Some fr"
      and "fr_response fr = Plain (PDict d)"
  shows "visit_part repr p acc = render_function_response repr d acc"
  using assms by (simp add: visit_part_def)

lemma visit_around:
  assumes "visit_parts repr before [] = Inr tb"
      and "visit_parts repr after [] = Inr ta"
      and "visit_part repr p tb = Inr (tb @ mid)"
  shows "visit_parts repr (before @ [p] @ after) [] = Inr (tb @ mid @ ta)"
  using assms
  by (simp add: visit_parts_append visit_parts_acc [of repr after "tb @ mid"])

text \<open>
  What lines 112 to 126 make of a payload that is a Python dictionary: take a response in
  which one part is a function response without text, and whose other parts are
  extracted without an exception. If the dictionary has no error and a non-empty list
  of flight records, the answer holds, at the place of that part, the header, then one
  entry per record in the order of the list, numbered from one and built as
  \<open>spec_flight_line\<close> says, then the summary when there is one. If it has an error, the
  answer holds the line that reports it at that place, and no listing.
\<close>

lemma dict_payload_is_listed:
  assumes "candidates resp = c # cs"
      and "parts (content c) = before @ [p] @ after"
      and "visit_parts repr before [] = Inr tb"
      and "visit_parts repr after [] = Inr ta"
      and "p_text p = None" and "p_function_response p = Some fr"
      and "fr_response fr = Plain (PDict d)"
  shows "(\<not> py_truthy (dict_get d ''error'') \<and> dict_get d ''flights'' = PList fs
            \<and> fs \<noteq> [] \<and> list_all is_flight_record fs
          \<longrightarrow> extract_final_text repr resp
                = Inr (ReturnsStr (str_join ''\<newline>\<newline>''
                                     (tb @ spec_listing repr d fs @ ta))))
       \<and> (py_truthy (dict_get d ''error'')
          \<longrightarrow> extract_final_text repr resp
                = Inr (ReturnsStr (str_join ''\<newline>\<newline>''
                         (tb @ [''Sorry, there was a problem: ''
                                 @ py_str repr (dict_get d ''error'')] @ ta))))"
proof (intro conjI impI)
  assume a: "\<not> py_truthy (dict_get d ''error'') \<and> dict_get d ''flights'' = PList fs
            \<and> fs \<noteq> [] \<and> list_all is_flight_record fs"
  have "visit_part repr p tb = Inr (tb @ spec_listing repr d fs)"
    using a assms(5-7) by (simp add: visit_result_part render_flights)
  with assms(3,4) have "visit_parts repr (before @ [p] @ after) []
                          = Inr (tb @ spec_listing repr d fs @ ta)"
    by (rule visit_around)
  with assms(1,2) show "extract_final_text repr resp
                = Inr (ReturnsStr (str_join ''\<newline>\<newline>''
                                     (tb @ spec_listing repr d fs @ ta)))"
    by (simp add: extract_final_text_def spec_listing_def)
next
  assume a: "py_truthy (dict_get d ''error'')"
  have "visit_part repr p tb
          = Inr (tb @ [''Sorry, there was a problem: '' @ py_str repr (dict_get d ''error'')])"
    using a assms(5-7) by (simp add: visit_result_part render_error)
  with assms(3,4) have "visit_parts repr (before @ [p] @ after) []
          = Inr (tb @ [''Sorry, there was a problem: '' @ py_str repr (dict_get d ''error'')] @ ta)"
    by (rule visit_around)
  with assms(1,2) show "extract_final_text repr resp
                = Inr (ReturnsStr (str_join ''\<newline>\<newline>''
                         (tb @ [''Sorry, there was a problem: ''
                                 @ py_str repr (dict_get d ''error'')] @ ta)))"
    by (simp add: extract_final_text_def)
qed

lemma dict_payload_is_listed_example:
  "extract_final_text plain_repr
     (response_of
        [text_part ''Here is what I found.'',
         result_part ''search_flights''
           (Plain (PDict [(''flights'',
                    PList [flight_record ''Lufthansa'' ''FRA'' ''DAC'' ''10:00'' ''23:30'' 1 650
                             ''USD'' ''LH760'',
                           flight_record ''Emirates'' ''FRA'' ''DAC'' ''14:00'' ''08:15'' 1 720
                             ''USD'' ''EK44'']),
                   (''summary'', PStr ''Found 2 flights from FRA to DAC on 2025-06-01.'')]))])
   = Inr (ReturnsStr
      (''Here is what I found.\<newline>\<newline>''
       @ ''\<newline>Here are the best flight options I found for you:\<newline>\<newline>''
       @ ''1. Airline: Lufthansa\<newline>   Route: FRA '' @ [CHR 0xE2, CHR 0x86, CHR 0x92]
       @ '' DAC\<newline>   Departure: 10:00\<newline>   Arrival: 23:30\<newline>   Stops: 1''
       @ ''\<newline>   Price: $650 USD\<newline>   Flight Number: LH760\<newline>\<newline>''
       @ ''2. Airline: Emirates\<newline>   Route: FRA '' @ [CHR 0xE2, CHR 0x86, CHR 0x92]
       @ '' DAC\<newline>   Departure: 14:00\<newline>   Arrival: 08:15\<newline>   Stops: 1''
       @ ''\<newline>   Price: $720 USD\<newline>   Flight Number: EK44\<newline>\<newline>''
       @ ''\<newline>Summary: Found 2 flights from FRA to DAC on 2025-06-01.''))
   \<and> extract_final_text plain_repr
       (response_of
          [text_part ''Here is what I found.'',
           result_part ''search_flights'' (Plain (PDict [(''error'', PStr ''rate limited'')]))])
     = Inr (ReturnsStr
         (''Here is what I found.\<newline>\<newline>''
          @ ''Sorry, there was a problem: rate limited''))"
proof -
  let ?t = "text_part ''Here is what I found.''"
  let ?fs = "[flight_record ''Lufthansa'' ''FRA'' ''DAC'' ''10:00'' ''23:30'' 1 650 ''USD'' ''LH760'',
              flight_record ''Emirates'' ''FRA'' ''DAC'' ''14:00'' ''08:15'' 1 720 ''USD'' ''EK44'']"
  let ?d = "[(''flights'', PList ?fs),
             (''summary'', PStr ''Found 2 flights from FRA to DAC on 2025-06-01.'')]"
  let ?e = "[(''error'', PStr ''rate limited'')]"
  let ?p = "result_part ''search_flights'' (Plain (PDict ?d))"
  let ?q = "result_part ''search_flights'' (Plain (PDict ?e))"
  have c: "\<And>ps. candidates (response_of ps) = \<lparr> content = \<lparr> parts = ps \<rparr> \<rparr> # []"
    by (simp add: response_of_def)
  have p1: "parts (content \<lparr> content = \<lparr> parts = [?t, ?p] \<rparr> \<rparr>) = [?t] @ [?p] @ []" by simp
  have p2: "parts (content \<lparr> content = \<lparr> parts = [?t, ?q] \<rparr> \<rparr>) = [?t] @ [?q] @ []" by simp
  have b: "visit_parts plain_repr [?t] [] = Inr [''Here is what I found.'']"
    by (simp add: visit_part_def text_part_def)
  have a: "visit_parts plain_repr [] [] = Inr []" by simp
  have tp: "p_text ?p = None" "p_text ?q = None" by (simp_all add: result_part_def)
  have fp: "p_function_response ?p = Some \<lparr> fr_name = ''search_flights'', fr_response = Plain (PDict ?d) \<rparr>"
    by (simp add: result_part_def)
  have fq: "p_function_response ?q = Some \<lparr> fr_name = ''search_flights'', fr_response = Plain (PDict ?e) \<rparr>"
    by (simp add: result_part_def)
  have rp: "fr_response \<lparr> fr_name = ''search_flights'', fr_response = Plain (PDict ?d) \<rparr> = Plain (PDict ?d)" by simp
  have rq: "fr_response \<lparr> fr_name = ''search_flights'', fr_response = Plain (PDict ?e) \<rparr> = Plain (PDict ?e)" by simp
  have hyp1: "\<not> py_truthy (dict_get ?d ''error'') \<and> dict_get ?d ''flights'' = PList ?fs
            \<and> ?fs \<noteq> [] \<and> list_all is_flight_record ?fs"
    by (simp add: dict_get_def is_flight_record_def flight_record_def flight_keys_def)
  have hyp2: "py_truthy (dict_get ?e ''error'')"
    by (simp add: dict_get_def)
  from dict_payload_is_listed [OF c p1 b a tp(1) fp rp, of ?fs] hyp1
  have one: "extract_final_text plain_repr (response_of [?t, ?p])
               = Inr (ReturnsStr (str_join ''\<newline>\<newline>''
                        ([''Here is what I found.''] @ spec_listing plain_repr ?d ?fs @ [])))"
    by blast
  from dict_payload_is_listed [OF c p2 b a tp(2) fq rq, of "[]"] hyp2
  have two: "extract_final_text plain_repr (response_of [?t, ?q])
               = Inr (ReturnsStr (str_join ''\<newline>\<newline>''
                        ([''Here is what I found.'']
                         @ [''Sorry, there was a problem: '' @ py_str plain_repr (dict_get ?e ''error'')]
                         @ [])))"
    by blast
  have l: "spec_listing plain_repr ?d ?fs =
     [''\<newline>Here are the best flight options I found for you:'',
      ''1. Airline: Lufthansa\<newline>   Route: FRA '' @ arrow
       @ '' DAC\<newline>   Departure: 10:00\<newline>   Arrival: 23:30\<newline>   Stops: 1''
       @ ''\<newline>   Price: $650 USD\<newline>   Flight Number: LH760'',
      ''2. Airline: Emirates\<newline>   Route: FRA '' @ arrow
       @ '' DAC\<newline>   Departure: 14:00\<newline>   Arrival: 08:15\<newline>   Stops: 1''
       @ ''\<newline>   Price: $720 USD\<newline>   Flight Number: EK44'',
      ''\<newline>Summary: Found 2 flights from FRA to DAC on 2025-06-01.'']"
    by (simp add: spec_listing_def spec_flight_line_def field_of_def flight_record_def
                  dict_get_def str_int_def str_nat.simps)
  show ?thesis
    unfolding one two l by (simp add: dict_get_def arrow_def)
qed

section \<open>Properties of \<^verbatim>\<open>process_query\<close>\<close>

text \<open>
  Claim C1 says that \<^verbatim>\<open>process_query\<close> returns a string for every behaviour of the
  model and of the tools, never \<^verbatim>\<open>None\<close>. Exceptions are indeed caught and the
  extraction has a fallback text, but the test of line 106 has no \<^verbatim>\<open>else\<close>: when the
  model answers the query with a candidate whose content has no parts, the function
  ends without a \<^verbatim>\<open>return\<close> and the caller receives \<^verbatim>\<open>None\<close>.
\<close>

theorem process_query_returns_none_without_parts:
  "process_query (scripted_env (\<lambda>args. Inr []) (\<lambda>args. Inr []))
     [Inr (response_of [])] ''Find me a flight from FRA to DAC''
   = Some (ReturnsNone, [],
           [Sent (UserQuery ''Find me a flight from FRA to DAC'')
                 (Some [SEARCH_FLIGHTS_VERTEX_TOOL])])"
  by (simp add: run_defs dispatch_loop.simps)

text \<open>
  Claim C2, as the code has it: when the first part of the model's answer to the query
  carries no function call, no tool is called and nothing more is sent; the caller
  receives what the extraction makes of that very answer (its text when it has some,
  the fallback text when no part yields text, the error text when the extraction
  raises). Provided the answer has a candidate with at least one part, and given that
  \<open>repr\<close> never yields the empty string, what the caller receives is a non-empty string.
\<close>

theorem first_response_without_call:
  assumes "send_message_async env st (UserQuery q) (Some [SEARCH_FLIGHTS_VERTEX_TOOL])
             = (Inr resp, st1)"
      and "requested_call resp = None"
  shows "process_query env st q
           = Some (finish env
                     (Inr resp, st1, [Sent (UserQuery q) (Some [SEARCH_FLIGHTS_VERTEX_TOOL])]))
         \<and> (candidates resp \<noteq> [] \<and> parts (content (hd (candidates resp))) \<noteq> []
              \<and> (\<forall>w. builtin_repr env w \<noteq> [])
            \<longrightarrow> is_nonempty_str (fst (finish env
                     (Inr resp, st1,
                      [Sent (UserQuery q) (Some [SEARCH_FLIGHTS_VERTEX_TOOL])]))))"
proof
  show "process_query env st q
           = Some (finish env
                     (Inr resp, st1, [Sent (UserQuery q) (Some [SEARCH_FLIGHTS_VERTEX_TOOL])]))"
    using assms by (simp add: process_query_def dispatch_loop.simps)
next
  show "candidates resp \<noteq> [] \<and> parts (content (hd (candidates resp))) \<noteq> []
              \<and> (\<forall>w. builtin_repr env w \<noteq> [])
            \<longrightarrow> is_nonempty_str (fst (finish env
                     (Inr resp, st1,
                      [Sent (UserQuery q) (Some [SEARCH_FLIGHTS_VERTEX_TOOL])])))"
  proof
    assume a: "candidates resp \<noteq> [] \<and> parts (content (hd (candidates resp))) \<noteq> []
              \<and> (\<forall>w. builtin_repr env w \<noteq> [])"
    then obtain c cs where c: "candidates resp = c # cs"
      by (cases "candidates resp") auto
    with a have "parts (content c) \<noteq> []" by simp
    with c show "is_nonempty_str (fst (finish env
                     (Inr resp, st1,
                      [Sent (UserQuery q) (Some [SEARCH_FLIGHTS_VERTEX_TOOL])])))"
      using a by (intro finish_nonempty) auto
  qed
qed

text \<open>
  The theorem at a concrete run: the model answers the query with a question, and the
  question is what the caller receives.
\<close>

theorem first_response_without_call_witness:
  "process_query (scripted_env (\<lambda>args. Inr []) (\<lambda>args. Inr []))
     [Inr (response_of [text_part ''Which day do you want to fly?''])] ''Find me a flight''
   = Some (ReturnsStr ''Which day do you want to fly?'', [],
           [Sent (UserQuery ''Find me a flight'') (Some [SEARCH_FLIGHTS_VERTEX_TOOL])])
   \<and> is_nonempty_str (ReturnsStr ''Which day do you want to fly?'')"
proof -
  let ?env = "scripted_env (\<lambda>args. Inr []) (\<lambda>args. Inr [])"
  let ?resp = "response_of [text_part ''Which day do you want to fly?'']"
  have h1: "send_message_async ?env [Inr ?resp] (UserQuery ''Find me a flight'')
              (Some [SEARCH_FLIGHTS_VERTEX_TOOL]) = (Inr ?resp, [])"
    by (simp add: scripted_env_def scripted_send_def)
  have h2: "requested_call ?resp = None"
    by (simp add: run_defs)
  have h3: "candidates ?resp \<noteq> [] \<and> parts (content (hd (candidates ?resp))) \<noteq> []
              \<and> (\<forall>w. builtin_repr ?env w \<noteq> [])"
    by (simp add: run_defs plain_repr_nonempty)
  have f: "finish ?env (Inr ?resp, [],
             [Sent (UserQuery ''Find me a flight'') (Some [SEARCH_FLIGHTS_VERTEX_TOOL])])
     = (ReturnsStr ''Which day do you want to fly?'', [],
        [Sent (UserQuery ''Find me a flight'') (Some [SEARCH_FLIGHTS_VERTEX_TOOL])])"
    by (simp add: run_defs)
  show ?thesis
    using first_response_without_call [OF h1 h2] h3 f by simp
qed

text \<open>
  The specification's sentence on this case asks for a failure instead, never an answer
  built from the text of that response. In the run below the first part of the response
  carries no function call, and its text comes back as the answer.
\<close>

theorem text_reply_returned_as_answer:
  "requested_call (response_of [text_part ''Which day do you want to fly?'']) = None
   \<and> process_query (scripted_env (\<lambda>args. Inr []) (\<lambda>args. Inr []))
        [Inr (response_of [text_part ''Which day do you want to fly?''])]
        ''Find me a flight from FRA to DAC''
      = Some (ReturnsStr ''Which day do you want to fly?'', [],
              [Sent (UserQuery ''Find me a flight from FRA to DAC'')
                    (Some [SEARCH_FLIGHTS_VERTEX_TOOL])])"
  by (simp add: run_defs dispatch_loop.simps)


text \<open>
  Claim C3, as the code has it: in the turn after the query, when the model asks for
  \<^verbatim>\<open>search_google_flights\<close> although only \<^verbatim>\<open>search_flights\<close> was offered, the
  agent calls it all the same, sends its result with no tools offered, and goes on
  with the loop on the model's reply. The loop keeps no memory of which function it has
  already called.
\<close>

theorem second_tool_requested_first:
  assumes "send_message_async env st (UserQuery q) (Some [SEARCH_FLIGHTS_VERTEX_TOOL])
             = (Inr resp, st1)"
      and "requested_call resp = Some fc"
      and "fc_name fc = ''search_google_flights''"
      and "tool_search_google_flights env st1 (fc_args fc) = (Inr data, st2)"
      and "send_message_async env st2 (FunctionResponsePart ''search_google_flights'' data) None
             = (Inr resp', st3)"
  shows "process_query env st q
           = map_option (finish env)
               (dispatch_loop env st3
                  [Sent (UserQuery q) (Some [SEARCH_FLIGHTS_VERTEX_TOOL]),
                   Called ''search_google_flights'' (fc_args fc),
                   Sent (FunctionResponsePart ''search_google_flights'' data) None]
                  resp')"
proof -
  have "dispatch_loop env st1 [Sent (UserQuery q) (Some [SEARCH_FLIGHTS_VERTEX_TOOL])] resp
          = dispatch_loop env st3
                  [Sent (UserQuery q) (Some [SEARCH_FLIGHTS_VERTEX_TOOL]),
                   Called ''search_google_flights'' (fc_args fc),
                   Sent (FunctionResponsePart ''search_google_flights'' data) None]
                  resp'"
    using assms(2-5)
    by (subst dispatch_loop.simps) (simp add: registry_lookup tools_after_def)
  with assms(1) show ?thesis
    by (simp add: process_query_def)
qed

text \<open>The theorem at a concrete run.\<close>

theorem second_tool_requested_first_witness:
  "process_query (scripted_env (\<lambda>args. Inr []) (\<lambda>args. Inr key_missing))
     [Inr (response_of [call_part ''search_google_flights'' sample_args]),
      Inr (response_of [text_part ''Sorry, the search is unavailable.''])]
     ''Find me a flight''
   = Some (ReturnsStr ''Sorry, the search is unavailable.'', [],
           [Sent (UserQuery ''Find me a flight'') (Some [SEARCH_FLIGHTS_VERTEX_TOOL]),
            Called ''search_google_flights'' sample_args,
            Sent (FunctionResponsePart ''search_google_flights'' key_missing) None])"
proof -
  let ?env = "scripted_env (\<lambda>args. Inr []) (\<lambda>args. Inr key_missing)"
  let ?r1 = "response_of [call_part ''search_google_flights'' sample_args]"
  let ?r2 = "response_of [text_part ''Sorry, the search is unavailable.'']"
  let ?fc = "\<lparr> fc_name = ''search_google_flights'', fc_args = sample_args \<rparr>"
  have h1: "send_message_async ?env [Inr ?r1, Inr ?r2] (UserQuery ''Find me a flight'')
              (Some [SEARCH_FLIGHTS_VERTEX_TOOL]) = (Inr ?r1, [Inr ?r2])"
    by (simp add: scripted_env_def scripted_send_def)
  have h2: "requested_call ?r1 = Some ?fc"
    by (simp add: run_defs)
  have h3: "fc_name ?fc = ''search_google_flights''" by simp
  have h4: "tool_search_google_flights ?env [Inr ?r2] (fc_args ?fc)
              = (Inr key_missing, [Inr ?r2])"
    by (simp add: scripted_env_def)
  have h5: "send_message_async ?env [Inr ?r2]
              (FunctionResponsePart ''search_google_flights'' key_missing) None
              = (Inr ?r2, [])"
    by (simp add: scripted_env_def scripted_send_def)
  have l: "dispatch_loop ?env []
             [Sent (UserQuery ''Find me a flight'') (Some [SEARCH_FLIGHTS_VERTEX_TOOL]),
              Called ''search_google_flights'' (fc_args ?fc),
              Sent (FunctionResponsePart ''search_google_flights'' key_missing) None]
             ?r2
           = Some (Inr ?r2, [],
             [Sent (UserQuery ''Find me a flight'') (Some [SEARCH_FLIGHTS_VERTEX_TOOL]),
              Called ''search_google_flights'' (fc_args ?fc),
              Sent (FunctionResponsePart ''search_google_flights'' key_missing) None])"
    by (simp add: run_defs dispatch_loop.simps)
  show ?thesis
    using second_tool_requested_first [OF h1 h2 h3 h4 h5] l
    by (simp add: run_defs)
qed

text \<open>
  The specification's table sends this case to a failure. In the run below the model
  asks for the second tool first; the tool is called and the model's next reply comes
  back as the answer.
\<close>

theorem second_tool_first_is_dispatched:
  "process_query (scripted_env (\<lambda>args. Inr []) (\<lambda>args. Inr key_missing))
     [Inr (response_of [call_part ''search_google_flights'' sample_args]),
      Inr (response_of [text_part ''Sorry, the search is unavailable.''])]
     ''Find me a flight from FRA to DAC''
   = Some (ReturnsStr ''Sorry, the search is unavailable.'', [],
           [Sent (UserQuery ''Find me a flight from FRA to DAC'')
                 (Some [SEARCH_FLIGHTS_VERTEX_TOOL]),
            Called ''search_google_flights'' sample_args,
            Sent (FunctionResponsePart ''search_google_flights'' key_missing) None])"
  by (simp add: run_defs dispatch_loop.simps)

text \<open>
  Claim C4, as the code has it: when the model asks for a name that is not in the
  registry, in any turn, the agent sends a function response for that name whose payload
  is \<^verbatim>\<open>{"error": "Unknown function <name>"}\<close>, with no tools offered, and leaves the
  loop: that send is the last thing it does with the session, and its outcome (the
  model's reply, or the exception of the send) is what the loop ends with. The reply is
  then finished like any final response, so its text reaches the caller as an answer.
\<close>

theorem unknown_function_requested:
  assumes "requested_call resp = Some fc"
      and "fc_name fc \<noteq> ''search_flights''"
      and "fc_name fc \<noteq> ''search_google_flights''"
      and "send_message_async env st
             (FunctionResponsePart (fc_name fc)
                [(''error'', PStr (''Unknown function '' @ fc_name fc))]) None
             = (reply, st1)"
  shows "dispatch_loop env st tr resp
           = Some (reply, st1,
                   tr @ [Sent (FunctionResponsePart (fc_name fc)
                                 [(''error'', PStr (''Unknown function '' @ fc_name fc))])
                              None])"
  using assms
  by (subst dispatch_loop.simps) (simp add: registry_lookup split: sum.splits)

text \<open>The theorem at a concrete turn.\<close>

theorem unknown_function_requested_witness:
  "dispatch_loop (scripted_env (\<lambda>args. Inr []) (\<lambda>args. Inr []))
     [Inr (response_of [text_part ''Your flight is booked.''])]
     [Sent (UserQuery ''Book me a flight'') (Some [SEARCH_FLIGHTS_VERTEX_TOOL])]
     (response_of [call_part ''book_flight'' []])
   = Some (Inr (response_of [text_part ''Your flight is booked.'']), [],
           [Sent (UserQuery ''Book me a flight'') (Some [SEARCH_FLIGHTS_VERTEX_TOOL]),
            Sent (FunctionResponsePart ''book_flight''
                    [(''error'', PStr ''Unknown function book_flight'')]) None])"
proof -
  let ?env = "scripted_env (\<lambda>args. Inr []) (\<lambda>args. Inr [])"
  let ?fc = "\<lparr> fc_name = ''book_flight'', fc_args = [] \<rparr>"
  let ?r2 = "response_of [text_part ''Your flight is booked.'']"
  have h1: "requested_call (response_of [call_part ''book_flight'' []]) = Some ?fc"
    by (simp add: run_defs)
  have h2: "fc_name ?fc \<noteq> ''search_flights''" by simp
  have h3: "fc_name ?fc \<noteq> ''search_google_flights''" by simp
  have h4: "send_message_async ?env [Inr ?r2]
             (FunctionResponsePart (fc_name ?fc)
                [(''error'', PStr (''Unknown function '' @ fc_name ?fc))]) None
             = (Inr ?r2, [])"
    by (simp add: scripted_env_def scripted_send_def)
  show ?thesis
    using unknown_function_requested [OF h1 h2 h3 h4] by simp
qed

text \<open>
  The specification lets such a run end as a failure. In the run below the model asks
  for an unknown function and then claims success; the caller receives that claim as the
  answer.
\<close>

theorem unknown_function_reply_is_answer:
  "process_query (scripted_env (\<lambda>args. Inr []) (\<lambda>args. Inr []))
     [Inr (response_of [call_part ''book_flight'' []]),
      Inr (response_of [text_part ''Your flight is booked.''])]
     ''Book me a flight''
   = Some (ReturnsStr ''Your flight is booked.'', [],
           [Sent (UserQuery ''Book me a flight'') (Some [SEARCH_FLIGHTS_VERTEX_TOOL]),
            Sent (FunctionResponsePart ''book_flight''
                    [(''error'', PStr ''Unknown function book_flight'')]) None])"
  by (simp add: run_defs dispatch_loop.simps)

text \<open>
  Claim C5: when \<^verbatim>\<open>search_flights\<close> returns \<^verbatim>\<open>{"error": X}\<close>, the function
  response sent to the model carries that dictionary, with the string \<open>X\<close> unchanged,
  the send offers \<^verbatim>\<open>search_google_flights\<close>, and the loop goes on with the model's
  reply: the error of the tool does not end the run.
\<close>

theorem first_tool_error_is_passed_on:
  assumes "requested_call resp = Some fc"
      and "fc_name fc = ''search_flights''"
      and "tool_search_flights env st (fc_args fc) = (Inr [(''error'', PStr X)], st1)"
  shows "dispatch_loop env st tr resp =
     (case send_message_async env st1
             (FunctionResponsePart ''search_flights'' [(''error'', PStr X)])
             (Some [SEARCH_GOOGLE_FLIGHTS_VERTEX_TOOL]) of
        (Inl e, st2) \<Rightarrow>
          Some (Inl e, st2,
                tr @ [Called ''search_flights'' (fc_args fc),
                      Sent (FunctionResponsePart ''search_flights'' [(''error'', PStr X)])
                           (Some [SEARCH_GOOGLE_FLIGHTS_VERTEX_TOOL])])
      | (Inr resp', st2) \<Rightarrow>
          dispatch_loop env st2
            (tr @ [Called ''search_flights'' (fc_args fc),
                   Sent (FunctionResponsePart ''search_flights'' [(''error'', PStr X)])
                        (Some [SEARCH_GOOGLE_FLIGHTS_VERTEX_TOOL])])
            resp')"
  using assms
  by (subst dispatch_loop.simps)
     (simp add: registry_lookup tools_after_def split: prod.splits sum.splits)

text \<open>The theorem at a concrete turn.\<close>

theorem first_tool_error_is_passed_on_witness:
  "dispatch_loop (scripted_env (\<lambda>args. Inr [(''error'', PStr ''Sky Scrapper API key not set in .env'')]) (\<lambda>args. Inr []))
     [Inr (response_of [text_part ''Sorry, the search is unavailable.''])]
     [Sent (UserQuery ''Find me a flight'') (Some [SEARCH_FLIGHTS_VERTEX_TOOL])]
     (response_of [call_part ''search_flights'' sample_args])
   = Some (Inr (response_of [text_part ''Sorry, the search is unavailable.'']), [],
           [Sent (UserQuery ''Find me a flight'') (Some [SEARCH_FLIGHTS_VERTEX_TOOL]),
            Called ''search_flights'' sample_args,
            Sent (FunctionResponsePart ''search_flights'' [(''error'', PStr ''Sky Scrapper API key not set in .env'')])
                 (Some [SEARCH_GOOGLE_FLIGHTS_VERTEX_TOOL])])"
proof -
  let ?env = "scripted_env (\<lambda>args. Inr [(''error'', PStr ''Sky Scrapper API key not set in .env'')]) (\<lambda>args. Inr [])"
  let ?fc = "\<lparr> fc_name = ''search_flights'', fc_args = sample_args \<rparr>"
  let ?r2 = "response_of [text_part ''Sorry, the search is unavailable.'']"
  have h1: "requested_call (response_of [call_part ''search_flights'' sample_args])
              = Some ?fc"
    by (simp add: run_defs)
  have h2: "fc_name ?fc = ''search_flights''" by simp
  have h3: "tool_search_flights ?env [Inr ?r2] (fc_args ?fc)
              = (Inr [(''error'', PStr ''Sky Scrapper API key not set in .env'')], [Inr ?r2])"
    by (simp add: scripted_env_def)
  have l: "dispatch_loop ?env []
             [Sent (UserQuery ''Find me a flight'') (Some [SEARCH_FLIGHTS_VERTEX_TOOL]),
              Called ''search_flights'' sample_args,
              Sent (FunctionResponsePart ''search_flights'' [(''error'', PStr ''Sky Scrapper API key not set in .env'')])
                   (Some [SEARCH_GOOGLE_FLIGHTS_VERTEX_TOOL])] ?r2
           = Some (Inr ?r2, [],
             [Sent (UserQuery ''Find me a flight'') (Some [SEARCH_FLIGHTS_VERTEX_TOOL]),
              Called ''search_flights'' sample_args,
              Sent (FunctionResponsePart ''search_flights'' [(''error'', PStr ''Sky Scrapper API key not set in .env'')])
                   (Some [SEARCH_GOOGLE_FLIGHTS_VERTEX_TOOL])])"
    by (simp add: run_defs dispatch_loop.simps)
  show ?thesis
    using first_tool_error_is_passed_on [OF h1 h2 h3,
            of "[Sent (UserQuery ''Find me a flight'') (Some [SEARCH_FLIGHTS_VERTEX_TOOL])]"] l
    by (simp add: scripted_env_def scripted_send_def)
qed

text \<open>
  Claim C6: whenever the loop has called a registered function and got its result, the
  very next thing it does is to send that result, offering exactly
  \<^verbatim>\<open>search_google_flights\<close> when the function was \<^verbatim>\<open>search_flights\<close>, and
  leaving the tools out, so that nothing is offered, when it was
  \<^verbatim>\<open>search_google_flights\<close>. This holds in every turn, and so the record of every
  run that returns respects the order of the offers.
\<close>

theorem offers_follow_the_order:
  "(requested_call resp = Some fc
      \<and> map_of (AVAILABLE_FLIGHT_TOOLS env) (fc_name fc) = Some f
      \<and> f st (fc_args fc) = (Inr data, st1)
    \<longrightarrow> dispatch_loop env st tr resp =
          (case send_message_async env st1 (FunctionResponsePart (fc_name fc) data)
                  (if fc_name fc = ''search_flights''
                   then Some [SEARCH_GOOGLE_FLIGHTS_VERTEX_TOOL] else None) of
             (Inl e, st2) \<Rightarrow>
               Some (Inl e, st2,
                     tr @ [Called (fc_name fc) (fc_args fc),
                           Sent (FunctionResponsePart (fc_name fc) data)
                                (if fc_name fc = ''search_flights''
                                 then Some [SEARCH_GOOGLE_FLIGHTS_VERTEX_TOOL] else None)])
           | (Inr resp', st2) \<Rightarrow>
               dispatch_loop env st2
                 (tr @ [Called (fc_name fc) (fc_args fc),
                        Sent (FunctionResponsePart (fc_name fc) data)
                             (if fc_name fc = ''search_flights''
                              then Some [SEARCH_GOOGLE_FLIGHTS_VERTEX_TOOL] else None)])
                 resp'))
   \<and> (process_query env st0 q = Some (r, st', tr') \<longrightarrow> offers_ok tr')"
proof (intro conjI impI)
  assume a: "requested_call resp = Some fc
      \<and> map_of (AVAILABLE_FLIGHT_TOOLS env) (fc_name fc) = Some f
      \<and> f st (fc_args fc) = (Inr data, st1)"
  have t: "tools_after (fc_name fc)
             = (if fc_name fc = ''search_flights''
                then Some [SEARCH_GOOGLE_FLIGHTS_VERTEX_TOOL] else None)"
    by (simp add: tools_after_def)
  show "dispatch_loop env st tr resp =
          (case send_message_async env st1 (FunctionResponsePart (fc_name fc) data)
                  (if fc_name fc = ''search_flights''
                   then Some [SEARCH_GOOGLE_FLIGHTS_VERTEX_TOOL] else None) of
             (Inl e, st2) \<Rightarrow>
               Some (Inl e, st2,
                     tr @ [Called (fc_name fc) (fc_args fc),
                           Sent (FunctionResponsePart (fc_name fc) data)
                                (if fc_name fc = ''search_flights''
                                 then Some [SEARCH_GOOGLE_FLIGHTS_VERTEX_TOOL] else None)])
           | (Inr resp', st2) \<Rightarrow>
               dispatch_loop env st2
                 (tr @ [Called (fc_name fc) (fc_args fc),
                        Sent (FunctionResponsePart (fc_name fc) data)
                             (if fc_name fc = ''search_flights''
                              then Some [SEARCH_GOOGLE_FLIGHTS_VERTEX_TOOL] else None)])
                 resp')"
    unfolding t [symmetric]
    using a by (subst dispatch_loop.simps) (simp split: prod.splits sum.splits)
next
  assume run: "process_query env st0 q = Some (r, st', tr')"
  show "offers_ok tr'"
  proof (cases "send_message_async env st0 (UserQuery q) (Some [SEARCH_FLIGHTS_VERTEX_TOOL])")
    case (Pair r0 s0)
    show ?thesis
    proof (cases r0)
      case (Inl e)
      with Pair run show ?thesis
        by (auto simp: process_query_def finish_def)
    next
      case (Inr first)
      with Pair run obtain out where
        l: "dispatch_loop env s0 [Sent (UserQuery q) (Some [SEARCH_FLIGHTS_VERTEX_TOOL])] first
              = Some out"
        and f: "finish env out = (r, st', tr')"
        by (auto simp: process_query_def)
      from loop_trace [OF l] obtain suf where
        s: "snd (snd out) = [Sent (UserQuery q) (Some [SEARCH_FLIGHTS_VERTEX_TOOL])] @ suf"
        and ok: "offers_ok suf" by blast
      from f have "tr' = snd (snd out)"
        by (auto simp: finish_def split: prod.splits sum.splits)
      with s ok show ?thesis by simp
    qed
  qed
qed

text \<open>The theorem at a concrete run that calls both tools in order.\<close>

theorem offers_follow_the_order_witness:
  "dispatch_loop
     (scripted_env (\<lambda>args. Inr no_flights) (\<lambda>args. Inr no_flights))
     [Inr (response_of [call_part ''search_google_flights'' sample_args]),
      Inr (response_of [text_part ''No flights were found.''])]
     [Sent (UserQuery ''Find me a flight'') (Some [SEARCH_FLIGHTS_VERTEX_TOOL])]
     (response_of [call_part ''search_flights'' sample_args])
   = dispatch_loop
     (scripted_env (\<lambda>args. Inr no_flights) (\<lambda>args. Inr no_flights))
     [Inr (response_of [text_part ''No flights were found.''])]
     [Sent (UserQuery ''Find me a flight'') (Some [SEARCH_FLIGHTS_VERTEX_TOOL]),
      Called ''search_flights'' sample_args,
      Sent (FunctionResponsePart ''search_flights'' no_flights)
           (Some [SEARCH_GOOGLE_FLIGHTS_VERTEX_TOOL])]
     (response_of [call_part ''search_google_flights'' sample_args])
   \<and> process_query
     (scripted_env (\<lambda>args. Inr no_flights) (\<lambda>args. Inr no_flights))
     [Inr (response_of [call_part ''search_flights'' sample_args]),
      Inr (response_of [call_part ''search_google_flights'' sample_args]),
      Inr (response_of [text_part ''No flights were found.''])]
     ''Find me a flight''
   = Some (ReturnsStr ''No flights were found.'', [],
           [Sent (UserQuery ''Find me a flight'') (Some [SEARCH_FLIGHTS_VERTEX_TOOL]),
            Called ''search_flights'' sample_args,
            Sent (FunctionResponsePart ''search_flights'' no_flights)
                 (Some [SEARCH_GOOGLE_FLIGHTS_VERTEX_TOOL]),
            Called ''search_google_flights'' sample_args,
            Sent (FunctionResponsePart ''search_google_flights'' no_flights) None])
   \<and> offers_ok
         [Sent (UserQuery ''Find me a flight'') (Some [SEARCH_FLIGHTS_VERTEX_TOOL]),
          Called ''search_flights'' sample_args,
          Sent (FunctionResponsePart ''search_flights'' no_flights)
               (Some [SEARCH_GOOGLE_FLIGHTS_VERTEX_TOOL]),
          Called ''search_google_flights'' sample_args,
          Sent (FunctionResponsePart ''search_google_flights'' no_flights) None]"
proof -
  let ?env = "scripted_env (\<lambda>args. Inr no_flights) (\<lambda>args. Inr no_flights)"
  let ?r1 = "response_of [call_part ''search_flights'' sample_args]"
  let ?r2 = "response_of [call_part ''search_google_flights'' sample_args]"
  let ?r3 = "response_of [text_part ''No flights were found.'']"
  let ?q = "Sent (UserQuery ''Find me a flight'') (Some [SEARCH_FLIGHTS_VERTEX_TOOL])"
  let ?tr = "[?q, Called ''search_flights'' sample_args,
              Sent (FunctionResponsePart ''search_flights'' no_flights)
                   (Some [SEARCH_GOOGLE_FLIGHTS_VERTEX_TOOL]),
              Called ''search_google_flights'' sample_args,
              Sent (FunctionResponsePart ''search_google_flights'' no_flights) None]"
  have h: "requested_call ?r1 = Some \<lparr> fc_name = ''search_flights'', fc_args = sample_args \<rparr>
      \<and> map_of (AVAILABLE_FLIGHT_TOOLS ?env)
           (fc_name \<lparr> fc_name = ''search_flights'', fc_args = sample_args \<rparr>)
          = Some (tool_search_flights ?env)
      \<and> tool_search_flights ?env [Inr ?r2, Inr ?r3]
           (fc_args \<lparr> fc_name = ''search_flights'', fc_args = sample_args \<rparr>)
          = (Inr no_flights, [Inr ?r2, Inr ?r3])"
    by (simp add: run_defs)
  have run: "process_query ?env [Inr ?r1, Inr ?r2, Inr ?r3] ''Find me a flight''
               = Some (ReturnsStr ''No flights were found.'', [], ?tr)"
    by (simp add: run_defs dispatch_loop.simps)
  have s: "send_message_async ?env [Inr ?r2, Inr ?r3]
             (FunctionResponsePart ''search_flights'' no_flights)
             (Some [SEARCH_GOOGLE_FLIGHTS_VERTEX_TOOL]) = (Inr ?r2, [Inr ?r3])"
    by (simp add: scripted_env_def scripted_send_def)
  note inst = offers_follow_the_order
    [of ?r1 "\<lparr> fc_name = ''search_flights'', fc_args = sample_args \<rparr>" ?env "tool_search_flights ?env"
        "[Inr ?r2, Inr ?r3]" "no_flights" "[Inr ?r2, Inr ?r3]" "[?q]"
        "[Inr ?r1, Inr ?r2, Inr ?r3]" "''Find me a flight''"
        "ReturnsStr ''No flights were found.''" "[]" ?tr]
  from inst h run have
    one: "dispatch_loop ?env [Inr ?r2, Inr ?r3] [?q] ?r1
            = dispatch_loop ?env [Inr ?r3]
                ([?q] @ [Called ''search_flights'' sample_args,
                   Sent (FunctionResponsePart ''search_flights'' no_flights)
                        (Some [SEARCH_GOOGLE_FLIGHTS_VERTEX_TOOL])]) ?r2"
    and two: "offers_ok ?tr"
    by (simp_all add: s)
  from one two run show ?thesis by simp
qed

text \<open>
  Claim C7, as the code has it: the loop looks at the first part of the first candidate
  only. When that part carries a function call, this call alone decides what the loop
  does and every later part is ignored. When it carries none, for instance because it
  is text, the loop ends with this response and calls nothing, whatever the later parts
  are.
\<close>

theorem only_first_part_is_examined:
  assumes "candidates resp = c # cs" and "parts (content c) = p # ps"
  shows "(p_function_call p = None \<longrightarrow> dispatch_loop env st tr resp = Some (Inr resp, st, tr))
       \<and> (\<forall>fc. p_function_call p = Some fc \<longrightarrow>
            dispatch_loop env st tr resp
              = dispatch_loop env st tr (response_of [call_part (fc_name fc) (fc_args fc)]))"
proof -
  have rc: "requested_call resp = p_function_call p"
    using assms by (simp add: requested_call_def)
  have rc': "\<And>fc. requested_call (response_of [call_part (fc_name fc) (fc_args fc)]) = Some fc"
    by (simp add: requested_call_def response_of_def call_part_def)
  show ?thesis
  proof (intro conjI allI impI)
    assume "p_function_call p = None"
    with rc show "dispatch_loop env st tr resp = Some (Inr resp, st, tr)"
      by (subst dispatch_loop.simps) simp
  next
    fix fc assume "p_function_call p = Some fc"
    with rc have a: "requested_call resp = Some fc" by simp
    show "dispatch_loop env st tr resp
              = dispatch_loop env st tr (response_of [call_part (fc_name fc) (fc_args fc)])"
      by (simp add: dispatch_loop.simps [of env st tr resp]
            dispatch_loop.simps [of env st tr "response_of [call_part (fc_name fc) (fc_args fc)]"]
            a rc')
  qed
qed

text \<open>The theorem at two concrete responses, one for each half.\<close>

theorem only_first_part_is_examined_witness:
  "dispatch_loop (scripted_env (\<lambda>args. Inr []) (\<lambda>args. Inr [])) [] []
     (response_of [text_part ''Let me search.'', call_part ''search_flights'' []])
   = Some (Inr (response_of [text_part ''Let me search.'', call_part ''search_flights'' []]),
           [], [])
   \<and> dispatch_loop (scripted_env (\<lambda>args. Inr []) (\<lambda>args. Inr [])) [] []
       (response_of [call_part ''search_flights'' [], call_part ''search_google_flights'' []])
     = dispatch_loop (scripted_env (\<lambda>args. Inr []) (\<lambda>args. Inr [])) [] []
         (response_of [call_part ''search_flights'' []])"
proof -
  let ?env = "scripted_env (\<lambda>args. Inr []) (\<lambda>args. Inr [])"
  let ?t = "text_part ''Let me search.''"
  let ?c1 = "call_part ''search_flights'' []"
  let ?c2 = "call_part ''search_google_flights'' []"
  have a1: "candidates (response_of [?t, ?c1]) = [\<lparr> content = \<lparr> parts = [?t, ?c1] \<rparr> \<rparr>]"
    by (simp add: response_of_def)
  have a2: "parts (content \<lparr> content = \<lparr> parts = [?t, ?c1] \<rparr> \<rparr>) = ?t # [?c1]"
    by simp
  have a3: "p_function_call ?t = None"
    by (simp add: text_part_def)
  have b1: "candidates (response_of [?c1, ?c2]) = [\<lparr> content = \<lparr> parts = [?c1, ?c2] \<rparr> \<rparr>]"
    by (simp add: response_of_def)
  have b2: "parts (content \<lparr> content = \<lparr> parts = [?c1, ?c2] \<rparr> \<rparr>) = ?c1 # [?c2]"
    by simp
  have b3: "p_function_call ?c1 = Some \<lparr> fc_name = ''search_flights'', fc_args = [] \<rparr>"
    by (simp add: call_part_def)
  from only_first_part_is_examined [OF a1 a2, of ?env "[]" "[]"] a3
  have "dispatch_loop ?env [] [] (response_of [?t, ?c1])
          = Some (Inr (response_of [?t, ?c1]), [], [])"
    by blast
  moreover
  from only_first_part_is_examined [OF b1 b2, of ?env "[]" "[]"] b3
  have "dispatch_loop ?env [] [] (response_of [?c1, ?c2])
          = dispatch_loop ?env [] [] (response_of [?c1])"
    by fastforce
  ultimately show ?thesis by simp
qed

text \<open>
  The claim as first stated wants the first function call of a response honoured at any
  position. In the run below the call comes after a text part: no tool is called and
  the text comes back as the answer.
\<close>

theorem call_after_text_is_not_dispatched:
  "process_query (scripted_env (\<lambda>args. Inr []) (\<lambda>args. Inr []))
     [Inr (response_of [text_part ''Let me search.'',
                        call_part ''search_flights'' sample_args])]
     ''Find me a flight from FRA to DAC''
   = Some (ReturnsStr ''Let me search.'', [],
           [Sent (UserQuery ''Find me a flight from FRA to DAC'')
                 (Some [SEARCH_FLIGHTS_VERTEX_TOOL])])"
  by (simp add: run_defs dispatch_loop.simps)

section \<open>Properties of the extraction\<close>

text \<open>
  Claim C8 says that a final response with a function-response part whose payload
  carries flights is answered with the header and one entry per flight, and that a
  payload with an error gives the line that reports it. Lines 112 to 126 do this for a
  payload that is a Python dictionary (\<open>dict_payload_is_listed\<close> above), but the test
  of line 111 lets only such a dictionary through, and the payload of a part that
  comes from the SDK is a \<^verbatim>\<open>MapComposite\<close>. For such a part nothing is rendered: next
  to a text part only the text is returned, and alone it yields the fallback text.
\<close>

theorem map_composite_payload_is_not_listed:
  "extract_final_text plain_repr
     (response_of [text_part ''Here is what I found.'',
                   result_part ''search_flights'' (MapComposite proto_payload)])
   = Inr (ReturnsStr ''Here is what I found.'')
   \<and> extract_final_text plain_repr
       (response_of [result_part ''search_flights'' (MapComposite proto_payload)])
     = Inr (ReturnsStr
              ''Sorry, I couldn't generate a response for that query after processing.'')"
  by (simp add: extract_final_text_def visit_part_def response_of_def text_part_def
                result_part_def fallback_text_def)

text \<open>
  Claim C9, that the extraction is a pure and deterministic function of the segments
  of the response, has no theorem here. The extraction is embedded as a function, and
  of every function equal arguments give equal results, so such a theorem would hold of
  any extraction whatever. Whether the Python code performs input or output (it writes
  to the log at lines 129 and 132) is not a property of the function it computes.
\<close>

section \<open>Properties of the first tool\<close>

text \<open>
  Claim C10: both lookups are made, and when one of them has failed the result is an
  error dictionary that names the origin if its lookup failed and the destination
  otherwise; the state of the service is the one the two lookups left, and the result
  does not depend on the flight search, which is not called.
\<close>

theorem unresolved_airport_stops_the_search:
  assumes "lookup_sky_scrapper_location env st origin = (origin_info, st1)"
      and "lookup_sky_scrapper_location env st1 destination = (destination_info, st2)"
      and "lookup_failed origin_info \<or> lookup_failed destination_info"
  shows "unified_search_flights env st origin destination q
           = ([(''error'',
                PStr (if lookup_failed origin_info
                      then ''Could not find Sky Scrapper location for origin: '' @ origin
                      else ''Could not find Sky Scrapper location for destination: ''
                           @ destination))], st2)
         \<and> unified_search_flights (env\<lparr>search_flights_sky_scrapper := other\<rparr>)
               st origin destination q
             = unified_search_flights env st origin destination q"
  using assms
  by (auto simp: unified_search_flights_def get_sky_ids_for_airports_def lookup_failed_def
           split: lookup_result.splits list.splits)

text \<open>The theorem at a concrete service that knows neither airport.\<close>

theorem unresolved_airport_stops_the_search_witness:
  "unified_search_flights (logging_sky_env [''FRA'']) [] ''Atlantis'' ''El Dorado''
     \<lparr> departure_date = ''2025-06-01'', return_date = None, cabinClass = ''economy'',
       adults = 1, sortBy = ''best'', currency = ''USD'', market = ''en-US'',
       countryCode = ''US'', preferences = None \<rparr>
   = ([(''error'', PStr ''Could not find Sky Scrapper location for origin: Atlantis'')],
      [''lookup Atlantis'', ''lookup El Dorado''])"
proof -
  let ?env = "logging_sky_env [''FRA'']"
  have h1: "lookup_sky_scrapper_location ?env [] ''Atlantis''
              = (LookupError ''Sky Scrapper could not find location for: Atlantis'',
                 [''lookup Atlantis''])"
    by (simp add: logging_sky_env_def)
  have h2: "lookup_sky_scrapper_location ?env [''lookup Atlantis''] ''El Dorado''
              = (LookupError ''Sky Scrapper could not find location for: El Dorado'',
                 [''lookup Atlantis'', ''lookup El Dorado''])"
    by (simp add: logging_sky_env_def)
  have h3: "lookup_failed (LookupError ''Sky Scrapper could not find location for: Atlantis'')
            \<or> lookup_failed (LookupError ''Sky Scrapper could not find location for: El Dorado'')"
    by (simp add: lookup_failed_def)
  show ?thesis
    using unresolved_airport_stops_the_search [OF h1 h2 h3]
    by (simp add: lookup_failed_def)
qed

end
